theory Spec2Isabelle
  imports Complex_Main "HOL-Library.Char_ord" "HOL-Library.List_Lexorder" "HOL-Library.Option_ord"
begin

section \<open>Data model\<close>

text \<open>
  One row of the annotation table: an image file name, the free-text class, the bounding
  box and the image dimensions in pixels (integer columns of the CSV), and the derived
  columns. A column that a row does not hold (pandas None/NaN, or a column not yet added)
  is \<open>None\<close>.
\<close>

record annotation =
  filename :: string
  class_name :: string
  xmin :: int
  xmax :: int
  ymin :: int
  ymax :: int
  width :: int
  height :: int
  species :: "string option"
  disease :: string
  binary_class :: "int option"

text \<open>
  The exceptions the code can raise. \<open>OSError\<close> stands for itself and its subclasses
  (\<open>FileNotFoundError\<close>, \<open>IsADirectoryError\<close>, \<open>PermissionError\<close>).
\<close>

datatype py_error =
  KeyError | ZeroDivisionError | TypeError | ValueError | AttributeError
  | UnidentifiedImageError | OSError

section \<open>Text primitives (ASCII text)\<close>

text \<open>
  The Python string methods and regular expressions the code uses, on ASCII text:
  \<open>\\w\<close> is a letter, a digit or the underscore; \<open>\\s\<close> and \<open>str.strip\<close> take the
  characters for which \<open>str.isspace\<close> holds; case folding is that of the 26 letters.
\<close>

definition is_upper :: "char \<Rightarrow> bool" where
  "is_upper c = (CHR ''A'' \<le> c \<and> c \<le> CHR ''Z'')"

definition is_lower :: "char \<Rightarrow> bool" where
  "is_lower c = (CHR ''a'' \<le> c \<and> c \<le> CHR ''z'')"

definition is_digit :: "char \<Rightarrow> bool" where
  "is_digit c = (CHR ''0'' \<le> c \<and> c \<le> CHR ''9'')"

definition is_word_char :: "char \<Rightarrow> bool" where
  "is_word_char c = (is_upper c \<or> is_lower c \<or> is_digit c \<or> c = CHR ''_'')"

definition is_space :: "char \<Rightarrow> bool" where
  "is_space c = (c = CHR '' '' \<or> (CHR 0x09 \<le> c \<and> c \<le> CHR 0x0D)
                 \<or> (CHR 0x1C \<le> c \<and> c \<le> CHR 0x1F))"

definition to_lower :: "char \<Rightarrow> char" where
  "to_lower c = (if is_upper c then char_of (of_char c + (32::nat)) else c)"

definition to_upper :: "char \<Rightarrow> char" where
  "to_upper c = (if is_lower c then char_of (of_char c - (32::nat)) else c)"

text \<open>\<open>str.strip()\<close>: leading and trailing whitespace removed.\<close>

definition strip :: "string \<Rightarrow> string" where
  "strip s = rev (dropWhile is_space (rev (dropWhile is_space s)))"

text \<open>
  \<open>str.title()\<close>: a letter that follows a letter is lower-cased, any other letter is
  upper-cased, everything else is kept. The flag is Python's \<open>previous_is_cased\<close>.
\<close>

fun title_from :: "bool \<Rightarrow> string \<Rightarrow> string" where
  "title_from prev_cased [] = []"
| "title_from prev_cased (c # cs) =
     (if is_upper c \<or> is_lower c
      then (if prev_cased then to_lower c else to_upper c) # title_from True cs
      else c # title_from False cs)"

definition title :: "string \<Rightarrow> string" where
  "title s = title_from False s"

text \<open>Case-insensitive match of a literal pattern at the head of the text.\<close>

fun prefix_ci :: "string \<Rightarrow> string \<Rightarrow> bool" where
  "prefix_ci [] t = True"
| "prefix_ci (p # ps) [] = False"
| "prefix_ci (p # ps) (c # cs) = (to_lower p = to_lower c \<and> prefix_ci ps cs)"

text \<open>
  \<open>\\b\<close> between the character before the position (\<open>None\<close> at the start of the
  text) and the rest of the text: exactly one side is a word character.
\<close>

definition word_before :: "char option \<Rightarrow> bool" where
  "word_before prev = (case prev of None \<Rightarrow> False | Some c \<Rightarrow> is_word_char c)"

definition word_after :: "string \<Rightarrow> bool" where
  "word_after t = (case t of [] \<Rightarrow> False | c # _ \<Rightarrow> is_word_char c)"

definition boundary :: "char option \<Rightarrow> string \<Rightarrow> bool" where
  "boundary prev t = (word_before prev \<noteq> word_after t)"

text \<open>
  The pattern \<open>\\b<plant>\\b\<close> with \<open>re.IGNORECASE\<close>, tried at one position of the
  text. The plant name is taken as it is spelt: that is the code's pattern for a name
  of letters, digits, underscores and spaces, in which no character is an operator of
  regular expressions. A name with such an operator, and text outside ASCII, are not
  covered.
\<close>

definition match_here :: "string \<Rightarrow> char option \<Rightarrow> string \<Rightarrow> bool" where
  "match_here plant prev t =
     (boundary prev t \<and> prefix_ci plant t \<and>
      boundary (if plant = [] then prev else Some (t ! (length plant - 1)))
               (drop (length plant) t))"

text \<open>\<open>re.search\<close>: is there a position where the pattern matches?\<close>

fun search_from :: "string \<Rightarrow> char option \<Rightarrow> string \<Rightarrow> bool" where
  "search_from plant prev [] = match_here plant prev []"
| "search_from plant prev (c # cs) =
     (match_here plant prev (c # cs) \<or> search_from plant (Some c) cs)"

definition re_search_word :: "string \<Rightarrow> string \<Rightarrow> bool" where
  "re_search_word plant text = search_from plant None text"

text \<open>
  \<open>re.sub(pattern, "", text)\<close>: the leftmost matches, not overlapping, are deleted. An
  empty match deletes nothing and the scan moves on by one character.
\<close>

function sub_from :: "string \<Rightarrow> char option \<Rightarrow> string \<Rightarrow> string" where
  "sub_from plant prev [] = []"
| "sub_from plant prev (c # cs) =
     (if plant \<noteq> [] \<and> match_here plant prev (c # cs)
      then sub_from plant (Some ((c # cs) ! (length plant - 1))) (drop (length plant) (c # cs))
      else c # sub_from plant (Some c) cs)"
  by pat_completeness auto
termination
  by (relation "measure (\<lambda>(plant, prev, t). length t)") auto

definition re_sub_word :: "string \<Rightarrow> string \<Rightarrow> string" where
  "re_sub_word plant text = sub_from plant None text"

section \<open>Feature extractor\<close>

text \<open>\<open>FeatureExtractor.extract_species\<close>: the first plant of the list found in the text.\<close>

fun extract_species :: "string list \<Rightarrow> string \<Rightarrow> string option" where
  "extract_species [] text = None"
| "extract_species (plant # plants) text =
     (if re_search_word plant text then Some plant else extract_species plants text)"

text \<open>
  \<open>FeatureExtractor.extract_disease\<close>: every plant name is deleted in turn, the text
  stripped after each; what is left is title-cased, and the empty text gives
  \<open>healthy\<close>.
\<close>

fun remove_species :: "string list \<Rightarrow> string \<Rightarrow> string" where
  "remove_species [] text = text"
| "remove_species (plant # plants) text =
     remove_species plants (strip (re_sub_word plant text))"

definition extract_disease :: "string list \<Rightarrow> string \<Rightarrow> string" where
  "extract_disease plants text =
     (let t = remove_species plants text in if t \<noteq> [] then title t else ''healthy'')"

definition add_features :: "string list \<Rightarrow> annotation list \<Rightarrow> annotation list" where
  "add_features plants df =
     map (\<lambda>r. r\<lparr>species := extract_species plants (class_name r),
                disease := extract_disease plants (class_name r)\<rparr>) df"

section \<open>Record loader\<close>

text \<open>\<open>re.sub('(?i)leaf', '', s)\<close>: every occurrence of a literal, in any case, deleted.\<close>

function delete_ci :: "string \<Rightarrow> string \<Rightarrow> string" where
  "delete_ci pat [] = []"
| "delete_ci pat (c # cs) =
     (if pat \<noteq> [] \<and> prefix_ci pat (c # cs)
      then delete_ci pat (drop (length pat) (c # cs))
      else c # delete_ci pat cs)"
  by pat_completeness auto
termination
  by (relation "measure (\<lambda>(pat, t). length t)") auto

text \<open>\<open>re.sub('\\s+', ' ', s)\<close>: each run of whitespace becomes one space.\<close>

fun collapse_from :: "bool \<Rightarrow> string \<Rightarrow> string" where
  "collapse_from in_run [] = []"
| "collapse_from in_run (c # cs) =
     (if is_space c
      then (if in_run then collapse_from True cs else CHR '' '' # collapse_from True cs)
      else c # collapse_from False cs)"

definition collapse_spaces :: "string \<Rightarrow> string" where
  "collapse_spaces s = collapse_from False s"

definition underscores_to_spaces :: "string \<Rightarrow> string" where
  "underscores_to_spaces s = map (\<lambda>c. if c = CHR ''_'' then CHR '' '' else c) s"

text \<open>\<open>DataLoader.clean_class_names\<close>, on one class text and on the table.\<close>

definition clean_class_name :: "string \<Rightarrow> string" where
  "clean_class_name s =
     strip (underscores_to_spaces (collapse_spaces (delete_ci ''leaf'' s)))"

definition clean_class_names :: "annotation list \<Rightarrow> annotation list" where
  "clean_class_names df = map (\<lambda>r. r\<lparr>class_name := clean_class_name (class_name r)\<rparr>) df"

section \<open>Paths and numerals\<close>

text \<open>
  \<open>pathlib\<close> on a POSIX path: the text is cut at the slashes, the empty components and
  the components \<open>.\<close> are dropped, and the name is the last component left (the empty
  text when none is left). The suffix starts at the last dot of the name when that dot
  is neither its first nor its last character; the stem is the name without the
  suffix.
\<close>

fun split_slash :: "string \<Rightarrow> string list" where
  "split_slash [] = [[]]"
| "split_slash (c # cs) =
     (if c = CHR ''/'' then [] # split_slash cs
      else (case split_slash cs of [] \<Rightarrow> [[c]] | p # ps \<Rightarrow> (c # p) # ps))"

definition path_parts :: "string \<Rightarrow> string list" where
  "path_parts f = filter (\<lambda>p. p \<noteq> [] \<and> p \<noteq> ''.'') (split_slash f)"

definition path_name :: "string \<Rightarrow> string" where
  "path_name f = (let parts = path_parts f in if parts = [] then [] else last parts)"

definition path_suffix :: "string \<Rightarrow> string" where
  "path_suffix f =
     (let name = path_name f;
          ext = rev (takeWhile (\<lambda>c. c \<noteq> CHR ''.'') (rev name))
      in if CHR ''.'' \<in> set name \<and> ext \<noteq> [] \<and> length ext + 1 < length name
         then CHR ''.'' # ext else [])"

definition path_stem :: "string \<Rightarrow> string" where
  "path_stem f = (let name = path_name f in take (length name - length (path_suffix f)) name)"

text \<open>\<open>str(k)\<close> of a natural number: its decimal digits.\<close>

definition digit_char :: "nat \<Rightarrow> char" where
  "digit_char d = char_of (48 + d)"

fun str_nat :: "nat \<Rightarrow> string" where
  "str_nat n = (if n < 10 then [digit_char n] else str_nat (n div 10) @ [digit_char (n mod 10)])"

declare str_nat.simps [simp del]

section \<open>Grouping\<close>

text \<open>
  \<open>df.groupby(column)\<close>: one group per distinct value of the column, in ascending order
  of the value; rows without a value are left out; each group keeps the rows in table
  order.
\<close>

definition group_keys :: "('r \<Rightarrow> 'k::linorder option) \<Rightarrow> 'r list \<Rightarrow> 'k list" where
  "group_keys key df = sort (remdups (List.map_filter key df))"

definition group_of :: "('r \<Rightarrow> 'k option) \<Rightarrow> 'r list \<Rightarrow> 'k \<Rightarrow> 'r list" where
  "group_of key df k = filter (\<lambda>r. key r = Some k) df"

definition groupby :: "('r \<Rightarrow> 'k::linorder option) \<Rightarrow> 'r list \<Rightarrow> ('k \<times> 'r list) list" where
  "groupby key df = map (\<lambda>k. (k, group_of key df k)) (group_keys key df)"

section \<open>Class balancer\<close>

text \<open>The duplicate number \<open>k\<close> of a row: only the file name changes.\<close>

definition dup_filename :: "string \<Rightarrow> nat \<Rightarrow> string" where
  "dup_filename f k = path_stem f @ ''_dup'' @ str_nat k @ path_suffix f"

definition make_duplicate :: "annotation \<Rightarrow> nat \<Rightarrow> annotation" where
  "make_duplicate sample k = sample\<lparr>filename := dup_filename (filename sample) k\<rparr>"

text \<open>The \<open>while duplicates_added < n_to_add\<close> loop, from a given \<open>duplicates_added\<close>.\<close>

function add_duplicates :: "annotation list \<Rightarrow> int \<Rightarrow> nat \<Rightarrow> annotation list" where
  "add_duplicates grp n_to_add duplicates_added =
     (if int duplicates_added < n_to_add
      then make_duplicate (grp ! (duplicates_added mod length grp)) duplicates_added
             # add_duplicates grp n_to_add (Suc duplicates_added)
      else [])"
  by pat_completeness auto
termination
  by (relation "measure (\<lambda>(grp, n_to_add, k). nat (n_to_add - int k))") auto

declare add_duplicates.simps [simp del]

text \<open>\<open>group.iloc[:t]\<close>: the first \<open>t\<close> rows, or all but the last \<open>-t\<close> when \<open>t < 0\<close>.\<close>

definition iloc_upto :: "'a list \<Rightarrow> int \<Rightarrow> 'a list" where
  "iloc_upto xs t = (if 0 \<le> t then take (nat t) xs else take (length xs - nat (- t)) xs)"

text \<open>The body of the loop over the groups: what one class contributes.\<close>

definition balance_group :: "annotation list \<Rightarrow> int \<Rightarrow> bool \<Rightarrow> annotation list" where
  "balance_group grp target_samples_per_class keep_above_target =
     (let n_samples = length grp;
          n_to_add = target_samples_per_class - int n_samples
      in if n_to_add > 0 then grp @ add_duplicates grp n_to_add 0
         else if keep_above_target then grp
         else iloc_upto grp target_samples_per_class)"

text \<open>
  \<open>DataBalancer.balance_by_column\<close>. \<open>pd.concat\<close> of no group at all raises
  \<open>ValueError\<close>.
\<close>

definition balance_by_column ::
  "annotation list \<Rightarrow> (annotation \<Rightarrow> 'k::linorder option) \<Rightarrow> int \<Rightarrow> bool
     \<Rightarrow> py_error + annotation list" where
  "balance_by_column df column target_samples_per_class keep_above_target =
     (let balanced_dfs = map (\<lambda>(class_value, grp).
                               balance_group grp target_samples_per_class keep_above_target)
                             (groupby column df)
      in if balanced_dfs = [] then Inl ValueError else Inr (concat balanced_dfs))"

section \<open>Integrity validator\<close>

text \<open>
  What the image folder holds at \<open>image_folder / filename\<close>: nothing, an image with its
  size (width, height) as \<open>Image.open(...).size\<close> reports it, a file that is not an
  image, on which \<open>Image.open\<close> raises, or a directory, which exists and can neither
  be opened nor copied as a file.
\<close>

datatype disk_file = ImageFile int int | OtherFile | Directory

type_synonym image_folder = "string \<rightharpoonup> disk_file"

text \<open>
  \<open>DataValidator.fix_zero_dimensions\<close>: a row with a zero width or height whose file
  exists takes both dimensions from the image; a row whose file is missing is kept as
  it is.
\<close>

fun fix_zero_dimensions :: "annotation list \<Rightarrow> image_folder \<Rightarrow> py_error + annotation list" where
  "fix_zero_dimensions [] folder = Inr []"
| "fix_zero_dimensions (row # rows) folder =
     (if width row = 0 \<or> height row = 0
      then (case folder (filename row) of
              None \<Rightarrow> map_sum id (\<lambda>rs. row # rs) (fix_zero_dimensions rows folder)
            | Some OtherFile \<Rightarrow> Inl UnidentifiedImageError
            | Some Directory \<Rightarrow> Inl OSError
            | Some (ImageFile w h) \<Rightarrow>
                map_sum id (\<lambda>rs. row\<lparr>width := w, height := h\<rparr> # rs)
                        (fix_zero_dimensions rows folder))
      else map_sum id (\<lambda>rs. row # rs) (fix_zero_dimensions rows folder))"

text \<open>
  \<open>DataValidator.verify_files_exist\<close>: only the rows whose file exists. On a table
  without rows the mask is the empty list, \<open>df[[]]\<close> selects no column, and the look-up
  of the column \<open>filename\<close> in the result raises \<open>KeyError\<close>.
\<close>

definition verify_files_exist :: "annotation list \<Rightarrow> image_folder \<Rightarrow> py_error + annotation list" where
  "verify_files_exist df folder =
     (if df = [] then Inl KeyError
      else Inr (filter (\<lambda>row. folder (filename row) \<noteq> None) df))"

definition validate_and_fix :: "annotation list \<Rightarrow> image_folder \<Rightarrow> py_error + annotation list" where
  "validate_and_fix df folder =
     (case fix_zero_dimensions df folder of
        Inl e \<Rightarrow> Inl e
      | Inr fixed \<Rightarrow> verify_files_exist fixed folder)"

section \<open>Format exporter\<close>

text \<open>
  \<open>YOLOConverter.convert_bbox_to_yolo\<close>. The columns are integers and \<open>/\<close> is Python's
  true division, taken here in exact arithmetic; dividing by zero raises.
\<close>

definition convert_bbox_to_yolo :: "annotation \<Rightarrow> py_error + (real \<times> real \<times> real \<times> real)" where
  "convert_bbox_to_yolo row =
     (if width row = 0 \<or> height row = 0 then Inl ZeroDivisionError
      else Inr (real_of_int (xmin row + xmax row) / 2 / real_of_int (width row),
                real_of_int (ymin row + ymax row) / 2 / real_of_int (height row),
                real_of_int (xmax row - xmin row) / real_of_int (width row),
                real_of_int (ymax row - ymin row) / real_of_int (height row)))"

text \<open>
  \<open>YOLOConverter.create_class_mapping\<close>: the distinct values of the column, sorted, each
  with its position. \<open>sorted\<close> cannot compare \<open>None\<close> with another value.
\<close>

type_synonym 'k class_mapping = "('k option \<times> nat) list"

definition create_class_mapping ::
  "annotation list \<Rightarrow> (annotation \<Rightarrow> 'k::linorder option) \<Rightarrow> py_error + 'k class_mapping" where
  "create_class_mapping df column =
     (let unique = remdups (map column df)
      in if None \<in> set unique \<and> 1 < length unique then Inl TypeError
         else (let unique_classes = sort unique
               in Inr (zip unique_classes [0..<length unique_classes])))"

text \<open>
  The two output directories: the image files, each with the source file it was copied
  from, and the label files, each with its lines, both under the path the code gives
  them below their directory; and the paths below each directory at which the code
  cannot write a file (for instance because the parent directory is missing or
  permission is denied), so that \<open>shutil.copy2\<close>, or \<open>open(..., "w")\<close>, raises there.
  A label line is the class index and the four box numbers (their rendering with six
  decimals is not modelled).
\<close>

type_synonym label_line = "nat \<times> real \<times> real \<times> real \<times> real"

record yolo_dirs =
  images :: "string \<rightharpoonup> string"
  labels :: "string \<rightharpoonup> label_line list"
  images_blocked :: "string set"
  labels_blocked :: "string set"

text \<open>\<open>sep in s\<close> and \<open>s.split(sep)[0]\<close>.\<close>

definition starts_with :: "string \<Rightarrow> string \<Rightarrow> bool" where
  "starts_with sep s = (take (length sep) s = sep)"

fun contains_sub :: "string \<Rightarrow> string \<Rightarrow> bool" where
  "contains_sub sep [] = (sep = [])"
| "contains_sub sep (c # cs) = (starts_with sep (c # cs) \<or> contains_sub sep cs)"

fun before_first :: "string \<Rightarrow> string \<Rightarrow> string" where
  "before_first sep [] = []"
| "before_first sep (c # cs) = (if starts_with sep (c # cs) then [] else c # before_first sep cs)"

text \<open>The source image of a file name: a duplicate is copied from its original.\<close>

definition source_filename :: "string \<Rightarrow> string" where
  "source_filename f =
     (if contains_sub ''_dup'' f then before_first ''_dup'' f @ path_suffix f else f)"

definition label_filename :: "string \<Rightarrow> string" where
  "label_filename f = path_stem f @ ''.txt''"

text \<open>
  The loop over the rows of a group inside \<open>with open(label_file, "w")\<close>: the lines
  written so far, and the exception that stopped the loop, if any.
\<close>

fun write_rows ::
  "'k class_mapping \<Rightarrow> (annotation \<Rightarrow> 'k option) \<Rightarrow> annotation list \<Rightarrow> label_line list
     \<Rightarrow> py_error option \<times> label_line list" where
  "write_rows class_mapping class_column [] written = (None, written)"
| "write_rows class_mapping class_column (row # rows) written =
     (case map_of class_mapping (class_column row) of
        None \<Rightarrow> (Some KeyError, written)
      | Some cls_idx \<Rightarrow>
          (case convert_bbox_to_yolo row of
             Inl e \<Rightarrow> (Some e, written)
           | Inr (x_c, y_c, w, h) \<Rightarrow>
               write_rows class_mapping class_column rows (written @ [(cls_idx, x_c, y_c, w, h)])))"

text \<open>
  The body of the \<open>try\<close> for one file name: how it ended, and the output directories
  as it left them. The image is copied before the label file is opened; opening the
  label file creates it, or empties the one that is there; the lines written before an
  exception stay in the file.
\<close>

datatype group_result = Exported | SkippedMissing | Raised py_error

definition process_group ::
  "image_folder \<Rightarrow> 'k class_mapping \<Rightarrow> (annotation \<Rightarrow> 'k option) \<Rightarrow> string \<Rightarrow> annotation list
     \<Rightarrow> yolo_dirs \<Rightarrow> group_result \<times> yolo_dirs" where
  "process_group source_images_dir class_mapping class_column fname grp out =
     (let src = source_filename fname
      in if source_images_dir src = None then (SkippedMissing, out)
         else if source_images_dir src = Some Directory \<or> fname \<in> images_blocked out
         then (Raised OSError, out)
         else (let copied = out\<lparr>images := (images out)(fname \<mapsto> src)\<rparr>
               in if label_filename fname \<in> labels_blocked out then (Raised OSError, copied)
                  else (let (err, written) = write_rows class_mapping class_column grp []
                        in (case err of None \<Rightarrow> Exported | Some e \<Rightarrow> Raised e,
                            copied\<lparr>labels := (labels copied)(label_filename fname \<mapsto> written)\<rparr>))))"

text \<open>
  The loop over the file-name groups with its \<open>except Exception\<close>: the counters
  \<open>exported\<close> and \<open>skipped\<close> and the output directories.
\<close>

fun export_loop ::
  "image_folder \<Rightarrow> 'k class_mapping \<Rightarrow> (annotation \<Rightarrow> 'k option)
     \<Rightarrow> (string \<times> annotation list) list \<Rightarrow> nat \<times> nat \<times> yolo_dirs \<Rightarrow> nat \<times> nat \<times> yolo_dirs" where
  "export_loop source_images_dir class_mapping class_column [] st = st"
| "export_loop source_images_dir class_mapping class_column ((fname, grp) # groups)
       (exported, skipped, out) =
     (case process_group source_images_dir class_mapping class_column fname grp out of
        (Exported, out') \<Rightarrow>
          export_loop source_images_dir class_mapping class_column groups
            (exported + 1, skipped, out')
      | (SkippedMissing, out') \<Rightarrow>
          export_loop source_images_dir class_mapping class_column groups
            (exported, skipped + 1, out')
      | (Raised e, out') \<Rightarrow>
          export_loop source_images_dir class_mapping class_column groups
            (exported, skipped + 1, out'))"

definition export_to_yolo ::
  "annotation list \<Rightarrow> image_folder \<Rightarrow> yolo_dirs \<Rightarrow> 'k class_mapping \<Rightarrow> (annotation \<Rightarrow> 'k option)
     \<Rightarrow> nat \<times> nat \<times> yolo_dirs" where
  "export_to_yolo df source_images_dir out class_mapping class_column =
     export_loop source_images_dir class_mapping class_column
       (groupby (\<lambda>row. Some (filename row)) df) (0, 0, out)"

definition exported_count :: "nat \<times> nat \<times> yolo_dirs \<Rightarrow> nat" where
  "exported_count res = fst res"

definition skipped_count :: "nat \<times> nat \<times> yolo_dirs \<Rightarrow> nat" where
  "skipped_count res = fst (snd res)"

definition output_dirs :: "nat \<times> nat \<times> yolo_dirs \<Rightarrow> yolo_dirs" where
  "output_dirs res = snd (snd res)"

section \<open>Pipelines\<close>

text \<open>
  The tables a pipeline holds. The processed tables are unset until the balancing
  stage has run.
\<close>

record pipeline =
  df_train :: "annotation list"
  df_test :: "annotation list"
  df_train_processed :: "annotation list option"
  df_test_processed :: "annotation list option"

text \<open>
  \<open>BasePipeline.load_and_prepare_data\<close>, from the rows of the two CSV files: clean, extract
  the features, validate each split against its image folder.
\<close>

definition load_and_prepare_data ::
  "string list \<Rightarrow> annotation list \<Rightarrow> annotation list \<Rightarrow> image_folder \<Rightarrow> image_folder
     \<Rightarrow> py_error + pipeline" where
  "load_and_prepare_data plant_species train_csv test_csv train_images_dir test_images_dir =
     (let train = add_features plant_species (clean_class_names train_csv);
          test = add_features plant_species (clean_class_names test_csv)
      in case validate_and_fix train train_images_dir of
           Inl e \<Rightarrow> Inl e
         | Inr train' \<Rightarrow>
             (case validate_and_fix test test_images_dir of
                Inl e \<Rightarrow> Inl e
              | Inr test' \<Rightarrow>
                  Inr \<lparr>df_train = train', df_test = test',
                       df_train_processed = None, df_test_processed = None\<rparr>))"

text \<open>\<open>BinaryPipeline.filter_data\<close>: the column \<open>binary_class\<close>, on both splits.\<close>

definition binary_label :: "annotation \<Rightarrow> annotation" where
  "binary_label row = row\<lparr>binary_class := Some (if disease row \<noteq> ''healthy'' then 1 else 0)\<rparr>"

definition binary_filter_data :: "pipeline \<Rightarrow> pipeline" where
  "binary_filter_data p =
     p\<lparr>df_train := map binary_label (df_train p), df_test := map binary_label (df_test p)\<rparr>"

text \<open>
  \<open>balance_data\<close>, the same method in the three pipelines but for the column. The
  dialogue with the operator is taken by its outcome: \<open>Some target\<close> when a target was
  entered and accepted, \<open>None\<close> when the natural distribution is kept (or the call is
  not interactive). The test table is copied in both cases.
\<close>

definition balance_data_on ::
  "(annotation \<Rightarrow> 'k::linorder option) \<Rightarrow> int option \<Rightarrow> pipeline \<Rightarrow> py_error + pipeline" where
  "balance_data_on column decision p =
     (case decision of
        Some target_samples \<Rightarrow>
          (case balance_by_column (df_train p) column target_samples True of
             Inl e \<Rightarrow> Inl e
           | Inr balanced \<Rightarrow>
               Inr (p\<lparr>df_train_processed := Some balanced,
                      df_test_processed := Some (df_test p)\<rparr>))
      | None \<Rightarrow>
          Inr (p\<lparr>df_train_processed := Some (df_train p),
                 df_test_processed := Some (df_test p)\<rparr>))"

definition disease_column :: "annotation \<Rightarrow> string option" where
  "disease_column row = Some (disease row)"

definition binary_balance_data :: "int option \<Rightarrow> pipeline \<Rightarrow> py_error + pipeline" where
  "binary_balance_data = balance_data_on binary_class"

definition species_balance_data :: "int option \<Rightarrow> pipeline \<Rightarrow> py_error + pipeline" where
  "species_balance_data = balance_data_on species"

definition disease_balance_data :: "int option \<Rightarrow> pipeline \<Rightarrow> py_error + pipeline" where
  "disease_balance_data = balance_data_on disease_column"

text \<open>
  \<open>BasePipeline.export_data\<close>: the mapping, the export of the training split, the export
  of the validation split, each into its own output directories. A training table that
  is still unset cannot be indexed, and an unset test table has no \<open>groupby\<close>. The
  YAML file written after the two exports is left out.
\<close>

record 'k export_report =
  class_mapping_used :: "'k class_mapping"
  train_export :: "nat \<times> nat \<times> yolo_dirs"
  val_export :: "nat \<times> nat \<times> yolo_dirs"

definition export_data ::
  "(annotation \<Rightarrow> 'k::linorder option) \<Rightarrow> pipeline \<Rightarrow> image_folder \<Rightarrow> image_folder
     \<Rightarrow> yolo_dirs \<Rightarrow> yolo_dirs \<Rightarrow> py_error + 'k export_report" where
  "export_data class_column p train_images_dir test_images_dir out_train out_val =
     (case df_train_processed p of
        None \<Rightarrow> Inl TypeError
      | Some train \<Rightarrow>
          (case create_class_mapping train class_column of
             Inl e \<Rightarrow> Inl e
           | Inr class_mapping \<Rightarrow>
               (case df_test_processed p of
                  None \<Rightarrow> Inl AttributeError
                | Some test \<Rightarrow>
                    Inr \<lparr>class_mapping_used = class_mapping,
                         train_export = export_to_yolo train train_images_dir out_train
                                          class_mapping class_column,
                         val_export = export_to_yolo test test_images_dir out_val
                                        class_mapping class_column\<rparr>)))"

section \<open>Export counters\<close>

lemma export_loop_counts:
  "fst (export_loop src m col groups (e, s, out))
     + fst (snd (export_loop src m col groups (e, s, out)))
   = e + s + length groups"
proof (induction groups arbitrary: e s out)
  case Nil
  then show ?case by simp
next
  case (Cons g groups)
  obtain fname grp where g: "g = (fname, grp)" by (cases g)
  obtain res out' where pg: "process_group src m col fname grp out = (res, out')"
    by (cases "process_group src m col fname grp out")
  show ?case
    using Cons.IH pg by (cases res) (simp_all add: g)
qed

lemma map_filter_Some: "List.map_filter (\<lambda>x. Some (f x)) xs = map f xs"
  by (induction xs) (simp_all add: List.map_filter_simps)

lemma group_keys_filename:
  "length (group_keys (\<lambda>row. Some (filename row)) df) = card (filename ` set df)"
  by (simp add: group_keys_def map_filter_Some length_remdups_card_conv)

text \<open>
  Claim C8. Whatever the table, the source folder, the output directories, the mapping
  and the class column, the two counters that \<open>export_to_yolo\<close> returns add up to the
  number of distinct file names of the table: each group counts once.
\<close>

theorem export_counts_sum:
  "exported_count (export_to_yolo df src out m col) + skipped_count (export_to_yolo df src out m col)
     = card (filename ` set df)"
  by (simp add: exported_count_def skipped_count_def export_to_yolo_def export_loop_counts
                groupby_def group_keys_filename)

section \<open>Bounding boxes\<close>

text \<open>
  Claim C9. On a row with non-zero dimensions the conversion returns the centre
  \<open>(xmin+xmax)/2/width\<close>, \<open>(ymin+ymax)/2/height\<close> and the size \<open>(xmax-xmin)/width\<close>,
  \<open>(ymax-ymin)/height\<close>; on a row with xmin=10, xmax=50, ymin=20, ymax=80, width=100,
  height=200 that is 0.30, 0.25, 0.40, 0.30, each between 0 and 1.
\<close>

theorem convert_bbox_formula:
  "(width row \<noteq> 0 \<and> height row \<noteq> 0 \<longrightarrow>
      convert_bbox_to_yolo row =
        Inr (real_of_int (xmin row + xmax row) / 2 / real_of_int (width row),
             real_of_int (ymin row + ymax row) / 2 / real_of_int (height row),
             real_of_int (xmax row - xmin row) / real_of_int (width row),
             real_of_int (ymax row - ymin row) / real_of_int (height row)))
   \<and> (xmin row = 10 \<and> xmax row = 50 \<and> ymin row = 20 \<and> ymax row = 80 \<and>
      width row = 100 \<and> height row = 200 \<longrightarrow>
        convert_bbox_to_yolo row = Inr (30 / 100, 25 / 100, 40 / 100, 30 / 100)
        \<and> (\<forall>v \<in> {30 / 100, 25 / 100, 40 / 100, 30 / 100 :: real}. 0 \<le> v \<and> v \<le> 1))"
  by (simp add: convert_bbox_to_yolo_def)

theorem convert_bbox_formula_witness:
  "convert_bbox_to_yolo
     \<lparr>filename = ''leaf.jpg'', class_name = ''Tomato Blight'', xmin = 10, xmax = 50,
      ymin = 20, ymax = 80, width = 100, height = 200, species = Some ''Tomato'',
      disease = ''Blight'', binary_class = None\<rparr>
   = Inr (30 / 100, 25 / 100, 40 / 100, 30 / 100)"
  using convert_bbox_formula
    [of "\<lparr>filename = ''leaf.jpg'', class_name = ''Tomato Blight'', xmin = 10, xmax = 50,
      ymin = 20, ymax = 80, width = 100, height = 200, species = Some ''Tomato'',
      disease = ''Blight'', binary_class = None\<rparr>"]
  by simp

section \<open>Species extraction\<close>

text \<open>
  Claim C10. A species that \<open>extract_species\<close> returns is an entry of the configured
  list, in the list's own spelling, and that entry matches the text; so the result is
  absent or a member of the list.
\<close>

theorem extract_species_from_list:
  "extract_species plants text = Some p \<Longrightarrow> p \<in> set plants \<and> re_search_word p text"
  by (induction plants) (auto split: if_splits)

theorem extract_species_from_list_witness:
  "extract_species [''Potato'', ''Tomato''] ''TOMATO early blight'' = Some ''Tomato''
   \<and> ''Tomato'' \<in> set [''Potato'', ''Tomato'']"
proof -
  have h: "extract_species [''Potato'', ''Tomato''] ''TOMATO early blight'' = Some ''Tomato''"
    by code_simp
  show ?thesis using h extract_species_from_list [OF h] by simp
qed

section \<open>Validation\<close>

lemma map_sum_id_Inr: "map_sum id f x = Inr y \<longleftrightarrow> (\<exists>z. x = Inr z \<and> y = f z)"
  by (cases x) auto

lemma fix_zero_dimensions_nonzero:
  assumes sizes: "\<forall>f w h. folder f = Some (ImageFile w h) \<longrightarrow> 0 < w \<and> 0 < h"
  shows "fix_zero_dimensions df folder = Inr fixed \<Longrightarrow> r \<in> set fixed
           \<Longrightarrow> folder (filename r) \<noteq> None \<Longrightarrow> width r \<noteq> 0 \<and> height r \<noteq> 0"
proof (induction df arbitrary: fixed)
  case Nil
  then show ?case by simp
next
  case (Cons row rows)
  from Cons.prems(1) obtain rest row' where rest: "fix_zero_dimensions rows folder = Inr rest"
    and fixed: "fixed = row' # rest"
    by (auto simp: map_sum_id_Inr split: if_splits option.splits disk_file.splits)
  show ?case
  proof (cases "r \<in> set rest")
    case True
    from Cons.IH [OF rest True Cons.prems(3)] show ?thesis .
  next
    case False
    with Cons.prems(2) fixed have rr: "r = row'" by simp
    show ?thesis
    proof (cases "width row = 0 \<or> height row = 0")
      case False
      with Cons.prems(1) fixed rr show ?thesis by (auto simp: map_sum_id_Inr)
    next
      case True
      show ?thesis
      proof (cases "folder (filename row)")
        case None
        with True Cons.prems(1) fixed have "row' = row" by (auto simp: map_sum_id_Inr)
        with None rr Cons.prems(3) show ?thesis by simp
      next
        case (Some dfile)
        show ?thesis
        proof (cases dfile)
          case (ImageFile w h)
          with Some sizes have "0 < w \<and> 0 < h" by blast
          moreover from True Some ImageFile Cons.prems(1) fixed
          have "row' = row\<lparr>width := w, height := h\<rparr>" by (auto simp: map_sum_id_Inr)
          ultimately show ?thesis using rr by simp
        next
          case OtherFile
          with True Some Cons.prems(1) show ?thesis by simp
        next
          case Directory
          with True Some Cons.prems(1) show ?thesis by simp
        qed
      qed
    qed
  qed
qed

lemma fix_zero_dimensions_nonneg:
  assumes sizes: "\<forall>f w h. folder f = Some (ImageFile w h) \<longrightarrow> 0 < w \<and> 0 < h"
  shows "fix_zero_dimensions df folder = Inr fixed
           \<Longrightarrow> \<forall>r0 \<in> set df. 0 \<le> width r0 \<and> 0 \<le> height r0
           \<Longrightarrow> r \<in> set fixed \<Longrightarrow> 0 \<le> width r \<and> 0 \<le> height r"
proof (induction df arbitrary: fixed)
  case Nil
  then show ?case by simp
next
  case (Cons row rows)
  from Cons.prems(1) obtain rest row' where rest: "fix_zero_dimensions rows folder = Inr rest"
    and fixed: "fixed = row' # rest"
    by (auto simp: map_sum_id_Inr split: if_splits option.splits disk_file.splits)
  from Cons.prems(2) have rows: "\<forall>r0 \<in> set rows. 0 \<le> width r0 \<and> 0 \<le> height r0"
    and row: "0 \<le> width row \<and> 0 \<le> height row" by simp_all
  show ?case
  proof (cases "r \<in> set rest")
    case True
    from Cons.IH [OF rest rows True] show ?thesis .
  next
    case False
    with Cons.prems(3) fixed have rr: "r = row'" by simp
    from Cons.prems(1) fixed
    have "row' = row \<or> (\<exists>w h. folder (filename row) = Some (ImageFile w h)
                               \<and> row' = row\<lparr>width := w, height := h\<rparr>)"
      by (auto simp: map_sum_id_Inr split: if_splits option.splits disk_file.splits)
    then show ?thesis
    proof
      assume "row' = row"
      with rr row show ?thesis by simp
    next
      assume "\<exists>w h. folder (filename row) = Some (ImageFile w h)
                               \<and> row' = row\<lparr>width := w, height := h\<rparr>"
      then obtain w h where f: "folder (filename row) = Some (ImageFile w h)"
        and r': "row' = row\<lparr>width := w, height := h\<rparr>" by blast
      from f sizes have "0 < w \<and> 0 < h" by blast
      with r' rr show ?thesis by simp
    qed
  qed
qed

text \<open>
  Claim C6, as the code has it. Every row that leaves the validation stage (dimension
  repair, then the existence filter) has a non-zero width and a non-zero height, given
  that the images of the folder report positive sizes; a row that would still have a
  zero dimension after the repair is one whose file is missing, and the filter drops
  it. The repair looks for zeros only: a negative dimension of the table stays, so both
  dimensions of every validated row are positive when no row of the table has a
  negative dimension.
\<close>

theorem validated_dimensions:
  assumes val: "validate_and_fix df folder = Inr out"
    and sizes: "\<forall>f w h. folder f = Some (ImageFile w h) \<longrightarrow> 0 < w \<and> 0 < h"
    and r: "r \<in> set out"
  shows "width r \<noteq> 0 \<and> height r \<noteq> 0
       \<and> ((\<forall>r0 \<in> set df. 0 \<le> width r0 \<and> 0 \<le> height r0) \<longrightarrow> 0 < width r \<and> 0 < height r)"
proof -
  from val obtain fixed where fx: "fix_zero_dimensions df folder = Inr fixed"
    and out: "verify_files_exist fixed folder = Inr out"
    by (auto simp: validate_and_fix_def split: sum.splits)
  from out have "out = filter (\<lambda>row. folder (filename row) \<noteq> None) fixed"
    by (auto simp: verify_files_exist_def split: if_splits)
  with r have rf: "r \<in> set fixed" and ex: "folder (filename r) \<noteq> None"
    by simp_all
  have nz: "width r \<noteq> 0 \<and> height r \<noteq> 0"
    by (rule fix_zero_dimensions_nonzero [OF sizes fx rf ex])
  have "0 < width r \<and> 0 < height r" if "\<forall>r0 \<in> set df. 0 \<le> width r0 \<and> 0 \<le> height r0"
    using fix_zero_dimensions_nonneg [OF sizes fx that rf] nz by simp
  with nz show ?thesis by blast
qed

text \<open>A row with both dimensions zero whose image is there, and one whose file is gone.\<close>

theorem validated_dimensions_witness:
  "validate_and_fix
     [\<lparr>filename = ''a.jpg'', class_name = ''Tomato'', xmin = 1, xmax = 2, ymin = 1, ymax = 2,
       width = 0, height = 0, species = None, disease = ''healthy'', binary_class = None\<rparr>,
      \<lparr>filename = ''gone.jpg'', class_name = ''Tomato'', xmin = 1, xmax = 2, ymin = 1, ymax = 2,
       width = 0, height = 7, species = None, disease = ''healthy'', binary_class = None\<rparr>]
     [''a.jpg'' \<mapsto> ImageFile 640 480]
   = Inr [\<lparr>filename = ''a.jpg'', class_name = ''Tomato'', xmin = 1, xmax = 2, ymin = 1, ymax = 2,
       width = 640, height = 480, species = None, disease = ''healthy'', binary_class = None\<rparr>]
   \<and> 0 < width \<lparr>filename = ''a.jpg'', class_name = ''Tomato'', xmin = 1, xmax = 2, ymin = 1, ymax = 2,
       width = 640, height = 480, species = None, disease = ''healthy'', binary_class = None\<rparr>"
proof -
  let ?df = "[\<lparr>filename = ''a.jpg'', class_name = ''Tomato'', xmin = 1, xmax = 2, ymin = 1, ymax = 2,
       width = 0, height = 0, species = None, disease = ''healthy'', binary_class = None\<rparr>,
      \<lparr>filename = ''gone.jpg'', class_name = ''Tomato'', xmin = 1, xmax = 2, ymin = 1, ymax = 2,
       width = 0, height = 7, species = None, disease = ''healthy'', binary_class = None\<rparr>]"
  let ?folder = "[''a.jpg'' \<mapsto> ImageFile 640 480]"
  let ?r = "\<lparr>filename = ''a.jpg'', class_name = ''Tomato'', xmin = 1, xmax = 2, ymin = 1, ymax = 2,
       width = 640, height = 480, species = None, disease = ''healthy'', binary_class = (None :: int option)\<rparr>"
  have v: "validate_and_fix ?df ?folder = Inr [?r]"
    by (simp add: validate_and_fix_def verify_files_exist_def)
  have s: "\<forall>f w h. ?folder f = Some (ImageFile w h) \<longrightarrow> 0 < w \<and> 0 < h"
    by (simp split: if_splits)
  have m: "?r \<in> set [?r]" by simp
  from validated_dimensions [OF v s m] v show ?thesis by simp
qed

text \<open>
  A row with the width -5 whose file exists: the repair looks for zeros only and the
  filter for the file only, so the row leaves the validation stage as it came.
\<close>

theorem validated_dimensions_counterexample:
  "validate_and_fix
     [\<lparr>filename = ''a.jpg'', class_name = ''Tomato Blight'', xmin = 1, xmax = 2, ymin = 1, ymax = 2,
        width = -5, height = 10, species = None, disease = '''', binary_class = None\<rparr>]
     (map_of [(''a.jpg'', ImageFile 640 480)])
   = Inr
     [\<lparr>filename = ''a.jpg'', class_name = ''Tomato Blight'', xmin = 1, xmax = 2, ymin = 1, ymax = 2,
        width = -5, height = 10, species = None, disease = '''', binary_class = None\<rparr>]"
  by code_simp

section \<open>Balancing: what each class receives\<close>

lemma set_map_filter: "set (List.map_filter f xs) = {y. \<exists>x \<in> set xs. f x = Some y}"
  by (induction xs) (auto simp: List.map_filter_simps split: option.splits)

lemma set_group_keys: "set (group_keys key df) = {k. \<exists>r \<in> set df. key r = Some k}"
  by (simp add: group_keys_def set_map_filter)

lemma distinct_group_keys: "distinct (group_keys key df)"
  by (simp add: group_keys_def)

lemma add_duplicates_map:
  "add_duplicates grp m k =
     map (\<lambda>j. make_duplicate (grp ! (j mod length grp)) j) [k..<nat m]"
proof (induction grp m k rule: add_duplicates.induct)
  case (1 grp m k)
  show ?case
  proof (cases "int k < m")
    case True
    then have "k < nat m" by simp
    then have "[k..<nat m] = k # [Suc k..<nat m]" by (rule upt_conv_Cons)
    with True 1 show ?thesis by (subst add_duplicates.simps) simp
  next
    case False
    then have "nat m \<le> k" by simp
    with False show ?thesis by (subst add_duplicates.simps) simp
  qed
qed

lemma balance_group_keeps_class:
  assumes indep: "\<And>r f. column (r\<lparr>filename := f\<rparr>) = column r"
    and grp: "\<forall>r \<in> set grp. column r = Some k"
    and ne: "grp \<noteq> []"
    and r: "r \<in> set (balance_group grp t keep)"
  shows "column r = Some k"
proof -
  have dup: "column (make_duplicate (grp ! (j mod length grp)) j) = Some k" for j
  proof -
    from ne have "grp ! (j mod length grp) \<in> set grp" by simp
    with grp show ?thesis by (simp add: make_duplicate_def indep)
  qed
  have sub: "set (iloc_upto grp t) \<subseteq> set grp"
    by (auto simp: iloc_upto_def dest: in_set_takeD)
  from r grp dup sub show ?thesis
    by (auto simp: balance_group_def Let_def add_duplicates_map split: if_splits)
qed

lemma filter_concat_classes:
  assumes "distinct keys"
    and "\<forall>k \<in> set keys. \<forall>r \<in> set (f k). column r = Some k"
  shows "filter (\<lambda>r. column r = Some c) (concat (map f keys)) = (if c \<in> set keys then f c else [])"
  using assms
proof (induction keys)
  case Nil
  then show ?case by simp
next
  case (Cons k keys)
  have same: "filter (\<lambda>r. column r = Some c) (f k) = (if k = c then f k else [])"
    using Cons.prems(2) by (auto simp: filter_empty_conv intro: filter_True)
  from Cons show ?case by (auto simp: same)
qed

lemma group_of_empty_iff: "group_of column df c = [] \<longleftrightarrow> c \<notin> set (group_keys column df)"
  by (auto simp: set_group_keys group_of_def filter_empty_conv)

lemma balance_by_column_class:
  assumes indep: "\<And>r f. column (r\<lparr>filename := f\<rparr>) = column r"
    and bal: "balance_by_column df column t keep = Inr out"
  shows "group_of column out c =
           (if group_of column df c = [] then []
            else balance_group (group_of column df c) t keep)"
proof -
  let ?f = "\<lambda>k. balance_group (group_of column df k) t keep"
  from bal have out: "out = concat (map ?f (group_keys column df))"
    by (auto simp: balance_by_column_def Let_def groupby_def comp_def split: if_splits)
  have cls: "\<forall>k \<in> set (group_keys column df). \<forall>r \<in> set (?f k). column r = Some k"
  proof (intro ballI)
    fix k r
    assume k: "k \<in> set (group_keys column df)" and r: "r \<in> set (?f k)"
    from k have ne: "group_of column df k \<noteq> []" by (simp add: group_of_empty_iff)
    have all: "\<forall>r \<in> set (group_of column df k). column r = Some k"
      by (simp add: group_of_def)
    show "column r = Some k"
      by (rule balance_group_keeps_class [OF indep all ne r])
  qed
  have "group_of column out c = (if c \<in> set (group_keys column df) then ?f c else [])"
    unfolding out group_of_def [of column "concat _" c]
    by (rule filter_concat_classes [OF distinct_group_keys cls])
  then show ?thesis by (simp add: group_of_empty_iff)
qed

lemma balance_by_column_returns:
  assumes "group_of column df c \<noteq> []"
  shows "\<exists>out. balance_by_column df column t keep = Inr out"
proof -
  from assms have "c \<in> set (group_keys column df)"
    by (simp add: group_of_empty_iff)
  then have "group_keys column df \<noteq> []" by auto
  then show ?thesis by (simp add: balance_by_column_def Let_def groupby_def)
qed

lemma balance_data_on_test:
  "balance_data_on column decision p = Inr p' \<Longrightarrow> df_test_processed p' = Some (df_test p)"
  by (auto simp: balance_data_on_def split: option.splits sum.splits)

text \<open>
  Claim C4. Under the default policy (keep the classes above the target), a class
  whose count is at least the target comes out of \<open>balance_by_column\<close> with exactly
  its own rows, in order: the same count and the same file names. The column is any
  column other than the file name. And in the three pipelines the balancing stage sets
  the processed test table to the test table itself, whether a target was chosen or
  not.
\<close>

theorem balancing_frame:
  "((\<forall>r f. column (r\<lparr>filename := f\<rparr>) = column r) \<and> group_of column df c \<noteq> []
      \<and> t \<le> int (length (group_of column df c))
     \<longrightarrow> (\<exists>out. balance_by_column df column t True = Inr out
                \<and> group_of column out c = group_of column df c))
   \<and> (binary_balance_data decision p = Inr p1 \<longrightarrow> df_test_processed p1 = Some (df_test p))
   \<and> (species_balance_data decision p = Inr p2 \<longrightarrow> df_test_processed p2 = Some (df_test p))
   \<and> (disease_balance_data decision p = Inr p3 \<longrightarrow> df_test_processed p3 = Some (df_test p))"
proof -
  have "\<exists>out. balance_by_column df column t True = Inr out
                \<and> group_of column out c = group_of column df c"
    if indep: "\<forall>r f. column (r\<lparr>filename := f\<rparr>) = column r"
      and ne: "group_of column df c \<noteq> []"
      and le: "t \<le> int (length (group_of column df c))"
  proof -
    from balance_by_column_returns [OF ne]
    obtain out where out: "balance_by_column df column t True = Inr out" by blast
    from indep have indep': "\<And>r f. column (r\<lparr>filename := f\<rparr>) = column r" by blast
    have "group_of column out c = balance_group (group_of column df c) t True"
      using balance_by_column_class [OF indep' out, of c] ne by simp
    also have "\<dots> = group_of column df c"
      using le by (simp add: balance_group_def Let_def)
    finally show ?thesis using out by blast
  qed
  then show ?thesis
    by (auto simp: binary_balance_data_def species_balance_data_def disease_balance_data_def
             dest: balance_data_on_test)
qed

theorem balancing_frame_witness:
  "balance_by_column
     [\<lparr>filename = ''a.jpg'', class_name = ''Tomato Blight'', xmin = 1, xmax = 2, ymin = 1, ymax = 2,
       width = 10, height = 10, species = Some ''Tomato'', disease = ''Blight'', binary_class = Some 1\<rparr>,
      \<lparr>filename = ''b.jpg'', class_name = ''Tomato Rust'', xmin = 1, xmax = 2, ymin = 1, ymax = 2,
       width = 10, height = 10, species = Some ''Tomato'', disease = ''Rust'', binary_class = Some 1\<rparr>,
      \<lparr>filename = ''c.jpg'', class_name = ''Tomato Blight'', xmin = 1, xmax = 2, ymin = 1, ymax = 2,
       width = 10, height = 10, species = Some ''Tomato'', disease = ''Blight'', binary_class = Some 1\<rparr>]
     disease_column 2 True
   = Inr
     [\<lparr>filename = ''a.jpg'', class_name = ''Tomato Blight'', xmin = 1, xmax = 2, ymin = 1, ymax = 2,
       width = 10, height = 10, species = Some ''Tomato'', disease = ''Blight'', binary_class = Some 1\<rparr>,
      \<lparr>filename = ''c.jpg'', class_name = ''Tomato Blight'', xmin = 1, xmax = 2, ymin = 1, ymax = 2,
       width = 10, height = 10, species = Some ''Tomato'', disease = ''Blight'', binary_class = Some 1\<rparr>,
      \<lparr>filename = ''b.jpg'', class_name = ''Tomato Rust'', xmin = 1, xmax = 2, ymin = 1, ymax = 2,
       width = 10, height = 10, species = Some ''Tomato'', disease = ''Rust'', binary_class = Some 1\<rparr>,
      \<lparr>filename = ''b_dup0.jpg'', class_name = ''Tomato Rust'', xmin = 1, xmax = 2, ymin = 1, ymax = 2,
       width = 10, height = 10, species = Some ''Tomato'', disease = ''Rust'', binary_class = Some 1\<rparr>]
   \<and> (\<exists>out. balance_by_column
     [\<lparr>filename = ''a.jpg'', class_name = ''Tomato Blight'', xmin = 1, xmax = 2, ymin = 1, ymax = 2,
       width = 10, height = 10, species = Some ''Tomato'', disease = ''Blight'', binary_class = Some 1\<rparr>,
      \<lparr>filename = ''b.jpg'', class_name = ''Tomato Rust'', xmin = 1, xmax = 2, ymin = 1, ymax = 2,
       width = 10, height = 10, species = Some ''Tomato'', disease = ''Rust'', binary_class = Some 1\<rparr>,
      \<lparr>filename = ''c.jpg'', class_name = ''Tomato Blight'', xmin = 1, xmax = 2, ymin = 1, ymax = 2,
       width = 10, height = 10, species = Some ''Tomato'', disease = ''Blight'', binary_class = Some 1\<rparr>]
     disease_column 2 True = Inr out
     \<and> map filename (group_of disease_column out ''Blight'') = [''a.jpg'', ''c.jpg''])
   \<and> df_test_processed
       (projr (disease_balance_data (Some 2)
          \<lparr>df_train = [\<lparr>filename = ''a.jpg'', class_name = ''Tomato Blight'', xmin = 1, xmax = 2,
              ymin = 1, ymax = 2, width = 10, height = 10, species = Some ''Tomato'',
              disease = ''Blight'', binary_class = Some 1\<rparr>],
           df_test = [\<lparr>filename = ''t.jpg'', class_name = ''Tomato Rust'', xmin = 1, xmax = 2,
              ymin = 1, ymax = 2, width = 10, height = 10, species = Some ''Tomato'',
              disease = ''Rust'', binary_class = Some 1\<rparr>],
           df_train_processed = None, df_test_processed = None\<rparr>))
     = Some [\<lparr>filename = ''t.jpg'', class_name = ''Tomato Rust'', xmin = 1, xmax = 2,
              ymin = 1, ymax = 2, width = 10, height = 10, species = Some ''Tomato'',
              disease = ''Rust'', binary_class = Some 1\<rparr>]"
proof -
  let ?a = "\<lparr>filename = ''a.jpg'', class_name = ''Tomato Blight'', xmin = 1, xmax = 2, ymin = 1, ymax = 2,
       width = 10, height = 10, species = Some ''Tomato'', disease = ''Blight'', binary_class = Some (1::int)\<rparr>"
  let ?b = "\<lparr>filename = ''b.jpg'', class_name = ''Tomato Rust'', xmin = 1, xmax = 2, ymin = 1, ymax = 2,
       width = 10, height = 10, species = Some ''Tomato'', disease = ''Rust'', binary_class = Some (1::int)\<rparr>"
  let ?c = "\<lparr>filename = ''c.jpg'', class_name = ''Tomato Blight'', xmin = 1, xmax = 2, ymin = 1, ymax = 2,
       width = 10, height = 10, species = Some ''Tomato'', disease = ''Blight'', binary_class = Some (1::int)\<rparr>"
  let ?t = "\<lparr>filename = ''t.jpg'', class_name = ''Tomato Rust'', xmin = 1, xmax = 2,
              ymin = 1, ymax = 2, width = 10, height = 10, species = Some ''Tomato'',
              disease = ''Rust'', binary_class = Some (1::int)\<rparr>"
  let ?p = "\<lparr>df_train = [?a], df_test = [?t], df_train_processed = None, df_test_processed = None\<rparr>"
  have run: "balance_by_column [?a, ?b, ?c] disease_column 2 True
               = Inr [?a, ?c, ?b, ?b\<lparr>filename := ''b_dup0.jpg''\<rparr>]"
    by code_simp
  have g: "group_of disease_column [?a, ?b, ?c] ''Blight'' = [?a, ?c]"
    by (simp add: group_of_def disease_column_def)
  have indep: "\<forall>r f. disease_column (r\<lparr>filename := f\<rparr>) = disease_column r"
    by (simp add: disease_column_def)
  have pipe: "disease_balance_data (Some 2) ?p
                = Inr (?p\<lparr>df_train_processed := Some [?a, ?a\<lparr>filename := ''a_dup0.jpg''\<rparr>],
                         df_test_processed := Some [?t]\<rparr>)"
    by code_simp
  from balancing_frame [of disease_column "[?a, ?b, ?c]" "''Blight''" 2 "Some 2" ?p _ _
                           "?p\<lparr>df_train_processed := Some [?a, ?a\<lparr>filename := ''a_dup0.jpg''\<rparr>],
                         df_test_processed := Some [?t]\<rparr>"]
  show ?thesis using run g indep pipe by simp
qed

section \<open>Balancing: a duplicate under the name of an original\<close>

text \<open>
  Claim C3. The name of a duplicate is put together from the stem of its original, the
  marker \<open>_dup\<close>, the ordinal and the suffix, and nothing compares it with the names
  the class already holds. A class of two records \<open>a.jpg\<close> and \<open>a_dup0.jpg\<close> balanced
  to three gets one duplicate, of \<open>a.jpg\<close> and with ordinal 0: it is called
  \<open>a_dup0.jpg\<close>, the name of the second original, so the table then holds two
  different boxes under one file name and the duplicates' names are not distinct from
  the originals'.
\<close>

theorem duplicate_takes_original_name:
  "balance_by_column
     [\<lparr>filename = ''a.jpg'', class_name = ''Tomato Blight'', xmin = 1, xmax = 2, ymin = 1, ymax = 2,
        width = 10, height = 10, species = Some ''Tomato'', disease = ''Blight'', binary_class = Some 1\<rparr>,
      \<lparr>filename = ''a_dup0.jpg'', class_name = ''Tomato Blight'', xmin = 3, xmax = 4, ymin = 3, ymax = 4,
        width = 10, height = 10, species = Some ''Tomato'', disease = ''Blight'', binary_class = Some 1\<rparr>]
     disease_column 3 True
   = Inr
     [\<lparr>filename = ''a.jpg'', class_name = ''Tomato Blight'', xmin = 1, xmax = 2, ymin = 1, ymax = 2,
        width = 10, height = 10, species = Some ''Tomato'', disease = ''Blight'', binary_class = Some 1\<rparr>,
      \<lparr>filename = ''a_dup0.jpg'', class_name = ''Tomato Blight'', xmin = 3, xmax = 4, ymin = 3, ymax = 4,
        width = 10, height = 10, species = Some ''Tomato'', disease = ''Blight'', binary_class = Some 1\<rparr>,
      \<lparr>filename = ''a_dup0.jpg'', class_name = ''Tomato Blight'', xmin = 1, xmax = 2, ymin = 1, ymax = 2,
        width = 10, height = 10, species = Some ''Tomato'', disease = ''Blight'', binary_class = Some 1\<rparr>]"
  by code_simp

section \<open>Class mapping\<close>

lemma class_mapping_shape:
  assumes "create_class_mapping df column = Inr m"
  shows "m = zip (sort (remdups (map column df))) [0..<card (column ` set df)]"
  using assms
  by (auto simp: create_class_mapping_def Let_def length_remdups_card_conv split: if_splits)

lemma zip_upt_index:
  assumes "distinct ks" and "i < length ks"
  shows "map_of (zip ks [0..<length ks]) (ks ! i) = Some i"
proof -
  have "map_of (zip ks [0..<length ks]) (ks ! i) = Some ([0..<length ks] ! i)"
    using assms by (intro map_of_zip_nth) simp_all
  with assms show ?thesis by simp
qed

lemma zip_upt_bij:
  assumes d: "distinct ks"
  shows "bij_betw (\<lambda>v. the (map_of (zip ks [0..<length ks]) v)) (set ks) {0..<length ks}"
proof (rule bij_betw_byWitness [where f' = "\<lambda>i. ks ! i"])
  show "\<forall>a \<in> set ks. ks ! the (map_of (zip ks [0..<length ks]) a) = a"
    using zip_upt_index [OF d] by (auto simp: in_set_conv_nth)
  show "\<forall>i \<in> {0..<length ks}. the (map_of (zip ks [0..<length ks]) (ks ! i)) = i"
    using zip_upt_index [OF d] by simp
  show "(\<lambda>v. the (map_of (zip ks [0..<length ks]) v)) ` set ks \<subseteq> {0..<length ks}"
    using zip_upt_index [OF d] by (auto simp: in_set_conv_nth)
  show "(\<lambda>i. ks ! i) ` {0..<length ks} \<subseteq> set ks"
    by auto
qed

text \<open>
  Claim C5. Whenever \<open>create_class_mapping\<close> returns, the keys of the mapping are the
  distinct values of the column in the table, in ascending order (the order of the
  strings is lexicographic by character code), each once; the indices are
  \<open>0, 1, ..., k - 1\<close> for the \<open>k\<close> distinct values, in that order, so the mapping
  is a bijection from the values onto \<open>{0, ..., k - 1}\<close>. It returns on every table in
  whose column no value is missing. And \<open>export_data\<close> builds the mapping once, from
  the processed training table, and hands that one mapping to the export of the
  training table and to the export of the test table.
\<close>

theorem class_mapping_bijection:
  "(\<forall>m. create_class_mapping df column = Inr m \<longrightarrow>
        sorted (map fst m) \<and> distinct (map fst m) \<and> set (map fst m) = column ` set df
      \<and> map snd m = [0..<card (column ` set df)]
      \<and> bij_betw (\<lambda>v. the (map_of m v)) (column ` set df) {0..<card (column ` set df)})
   \<and> (None \<notin> column ` set df \<longrightarrow> (\<exists>m. create_class_mapping df column = Inr m))
   \<and> (df_train_processed p = Some train \<and> df_test_processed p = Some test \<longrightarrow>
        export_data class_column p train_dir test_dir out_train out_val =
          (case create_class_mapping train class_column of
             Inl e \<Rightarrow> Inl e
           | Inr m \<Rightarrow>
               Inr \<lparr>class_mapping_used = m,
                    train_export = export_to_yolo train train_dir out_train m class_column,
                    val_export = export_to_yolo test test_dir out_val m class_column\<rparr>))"
proof (intro conjI allI impI)
  fix m
  assume run: "create_class_mapping df column = Inr m"
  let ?ks = "sort (remdups (map column df))"
  have len: "length ?ks = card (column ` set df)"
    by (simp add: length_remdups_card_conv)
  have m: "m = zip ?ks [0..<length ?ks]"
    using class_mapping_shape [OF run] len by simp
  have d: "distinct ?ks" by simp
  have keys: "map fst m = ?ks" and idx: "map snd m = [0..<length ?ks]"
    unfolding m by simp_all
  show "sorted (map fst m)" unfolding keys by simp
  show "distinct (map fst m)" unfolding keys by simp
  show "set (map fst m) = column ` set df" unfolding keys by simp
  show "map snd m = [0..<card (column ` set df)]" using idx len by simp
  have "bij_betw (\<lambda>v. the (map_of (zip ?ks [0..<length ?ks]) v)) (set ?ks) {0..<length ?ks}"
    by (rule zip_upt_bij [OF d])
  then show "bij_betw (\<lambda>v. the (map_of m v)) (column ` set df) {0..<card (column ` set df)}"
    using class_mapping_shape [OF run] by (simp add: length_remdups_card_conv)
next
  assume "None \<notin> column ` set df"
  then show "\<exists>m. create_class_mapping df column = Inr m"
    by (auto simp: create_class_mapping_def Let_def)
next
  assume "df_train_processed p = Some train \<and> df_test_processed p = Some test"
  then show "export_data class_column p train_dir test_dir out_train out_val =
          (case create_class_mapping train class_column of
             Inl e \<Rightarrow> Inl e
           | Inr m \<Rightarrow>
               Inr \<lparr>class_mapping_used = m,
                    train_export = export_to_yolo train train_dir out_train m class_column,
                    val_export = export_to_yolo test test_dir out_val m class_column\<rparr>)"
    by (simp add: export_data_def split: sum.splits)
qed

text \<open>Four training rows with three diseases, and a test row of the third.\<close>

theorem class_mapping_bijection_witness:
  "create_class_mapping
     [\<lparr>filename = ''a.jpg'', class_name = ''Tomato Rust'', xmin = 10, xmax = 50, ymin = 20, ymax = 80,
        width = 100, height = 200, species = Some ''Tomato'', disease = ''Rust'', binary_class = Some 1\<rparr>,
      \<lparr>filename = ''b.jpg'', class_name = ''Apple Scab'', xmin = 10, xmax = 50, ymin = 20, ymax = 80,
        width = 100, height = 200, species = Some ''Apple'', disease = ''Scab'', binary_class = Some 1\<rparr>,
      \<lparr>filename = ''c.jpg'', class_name = ''Tomato Blight'', xmin = 10, xmax = 50, ymin = 20, ymax = 80,
        width = 100, height = 200, species = Some ''Tomato'', disease = ''Blight'', binary_class = Some 1\<rparr>,
      \<lparr>filename = ''d.jpg'', class_name = ''Apple Rust'', xmin = 10, xmax = 50, ymin = 20, ymax = 80,
        width = 100, height = 200, species = Some ''Apple'', disease = ''Rust'', binary_class = Some 1\<rparr>]
     disease_column
   = Inr [(Some ''Blight'', 0), (Some ''Rust'', 1), (Some ''Scab'', 2)]
   \<and> sorted [Some ''Blight'', Some ''Rust'', Some ''Scab'']
   \<and> bij_betw (\<lambda>v. the (map_of [(Some ''Blight'', 0), (Some ''Rust'', 1), (Some ''Scab'', 2 :: nat)] v))
        {Some ''Rust'', Some ''Scab'', Some ''Blight''} {0..<3}
   \<and> map_sum id class_mapping_used
        (export_data disease_column
           \<lparr>df_train = [], df_test = [],
          df_train_processed = Some
     [\<lparr>filename = ''a.jpg'', class_name = ''Tomato Rust'', xmin = 10, xmax = 50, ymin = 20, ymax = 80,
        width = 100, height = 200, species = Some ''Tomato'', disease = ''Rust'', binary_class = Some 1\<rparr>,
      \<lparr>filename = ''b.jpg'', class_name = ''Apple Scab'', xmin = 10, xmax = 50, ymin = 20, ymax = 80,
        width = 100, height = 200, species = Some ''Apple'', disease = ''Scab'', binary_class = Some 1\<rparr>,
      \<lparr>filename = ''c.jpg'', class_name = ''Tomato Blight'', xmin = 10, xmax = 50, ymin = 20, ymax = 80,
        width = 100, height = 200, species = Some ''Tomato'', disease = ''Blight'', binary_class = Some 1\<rparr>,
      \<lparr>filename = ''d.jpg'', class_name = ''Apple Rust'', xmin = 10, xmax = 50, ymin = 20, ymax = 80,
        width = 100, height = 200, species = Some ''Apple'', disease = ''Rust'', binary_class = Some 1\<rparr>],
          df_test_processed = Some
     [\<lparr>filename = ''t.jpg'', class_name = ''Apple Scab'', xmin = 10, xmax = 50, ymin = 20, ymax = 80,
        width = 100, height = 200, species = Some ''Apple'', disease = ''Scab'', binary_class = Some 1\<rparr>]\<rparr>
           (map_of [(''a.jpg'', ImageFile 100 200), (''b.jpg'', ImageFile 100 200), (''c.jpg'', ImageFile 100 200), (''d.jpg'', ImageFile 100 200)])
           (map_of [(''t.jpg'', ImageFile 100 200)])
           \<lparr>images = map_of [], labels = map_of [], images_blocked = {}, labels_blocked = {}\<rparr>
           \<lparr>images = map_of [], labels = map_of [], images_blocked = {}, labels_blocked = {}\<rparr>)
     = Inr [(Some ''Blight'', 0), (Some ''Rust'', 1), (Some ''Scab'', 2)]
   \<and> map_sum id (\<lambda>report. labels (output_dirs (val_export report)) ''t.txt'')
        (export_data disease_column
           \<lparr>df_train = [], df_test = [],
          df_train_processed = Some
     [\<lparr>filename = ''a.jpg'', class_name = ''Tomato Rust'', xmin = 10, xmax = 50, ymin = 20, ymax = 80,
        width = 100, height = 200, species = Some ''Tomato'', disease = ''Rust'', binary_class = Some 1\<rparr>,
      \<lparr>filename = ''b.jpg'', class_name = ''Apple Scab'', xmin = 10, xmax = 50, ymin = 20, ymax = 80,
        width = 100, height = 200, species = Some ''Apple'', disease = ''Scab'', binary_class = Some 1\<rparr>,
      \<lparr>filename = ''c.jpg'', class_name = ''Tomato Blight'', xmin = 10, xmax = 50, ymin = 20, ymax = 80,
        width = 100, height = 200, species = Some ''Tomato'', disease = ''Blight'', binary_class = Some 1\<rparr>,
      \<lparr>filename = ''d.jpg'', class_name = ''Apple Rust'', xmin = 10, xmax = 50, ymin = 20, ymax = 80,
        width = 100, height = 200, species = Some ''Apple'', disease = ''Rust'', binary_class = Some 1\<rparr>],
          df_test_processed = Some
     [\<lparr>filename = ''t.jpg'', class_name = ''Apple Scab'', xmin = 10, xmax = 50, ymin = 20, ymax = 80,
        width = 100, height = 200, species = Some ''Apple'', disease = ''Scab'', binary_class = Some 1\<rparr>]\<rparr>
           (map_of [(''a.jpg'', ImageFile 100 200), (''b.jpg'', ImageFile 100 200), (''c.jpg'', ImageFile 100 200), (''d.jpg'', ImageFile 100 200)])
           (map_of [(''t.jpg'', ImageFile 100 200)])
           \<lparr>images = map_of [], labels = map_of [], images_blocked = {}, labels_blocked = {}\<rparr>
           \<lparr>images = map_of [], labels = map_of [], images_blocked = {}, labels_blocked = {}\<rparr>)
     = Inr (Some [(2, 3 / 10, 1 / 4, 2 / 5, 3 / 10)])"
proof -
  let ?df = "[\<lparr>filename = ''a.jpg'', class_name = ''Tomato Rust'', xmin = 10, xmax = 50, ymin = 20, ymax = 80,
        width = 100, height = 200, species = Some ''Tomato'', disease = ''Rust'', binary_class = (Some 1::int option)\<rparr>,
      \<lparr>filename = ''b.jpg'', class_name = ''Apple Scab'', xmin = 10, xmax = 50, ymin = 20, ymax = 80,
        width = 100, height = 200, species = Some ''Apple'', disease = ''Scab'', binary_class = Some 1\<rparr>,
      \<lparr>filename = ''c.jpg'', class_name = ''Tomato Blight'', xmin = 10, xmax = 50, ymin = 20, ymax = 80,
        width = 100, height = 200, species = Some ''Tomato'', disease = ''Blight'', binary_class = Some 1\<rparr>,
      \<lparr>filename = ''d.jpg'', class_name = ''Apple Rust'', xmin = 10, xmax = 50, ymin = 20, ymax = 80,
        width = 100, height = 200, species = Some ''Apple'', disease = ''Rust'', binary_class = Some 1\<rparr>]"
  let ?t = "\<lparr>filename = ''t.jpg'', class_name = ''Apple Scab'', xmin = 10, xmax = 50, ymin = 20, ymax = 80,
        width = 100, height = 200, species = Some ''Apple'', disease = ''Scab'', binary_class = (Some 1::int option)\<rparr>"
  let ?m = "[(Some ''Blight'', 0), (Some ''Rust'', 1), (Some ''Scab'', 2 :: nat)]"
  let ?p = "\<lparr>df_train = [], df_test = [],
          df_train_processed = Some ?df,
          df_test_processed = Some [?t]\<rparr>"
  let ?train_dir = "(map_of [(''a.jpg'', ImageFile 100 200), (''b.jpg'', ImageFile 100 200), (''c.jpg'', ImageFile 100 200), (''d.jpg'', ImageFile 100 200)])"
  let ?test_dir = "(map_of [(''t.jpg'', ImageFile 100 200)])"
  let ?out = "\<lparr>images = map_of [], labels = map_of [], images_blocked = {}, labels_blocked = {}\<rparr>"
  have run: "create_class_mapping ?df disease_column = Inr ?m"
    by code_simp
  have img: "disease_column ` set ?df = {Some ''Rust'', Some ''Scab'', Some ''Blight''}"
    by (auto simp: disease_column_def)
  have card: "card {Some ''Rust'', Some ''Scab'', Some ''Blight''} = 3"
    by simp
  have val: "labels (output_dirs (export_to_yolo [?t] ?test_dir ?out ?m disease_column)) ''t.txt''
               = Some [(2, 3 / 10, 1 / 4, 2 / 5, 3 / 10)]"
    by code_simp
  note inst = class_mapping_bijection [of ?df disease_column ?p ?df "[?t]" disease_column
                                         ?train_dir ?test_dir ?out ?out]
  from inst run
  have shape: "sorted (map fst ?m)
      \<and> bij_betw (\<lambda>v. the (map_of ?m v)) (disease_column ` set ?df)
           {0..<card (disease_column ` set ?df)}"
    by blast
  from inst run
  have report: "export_data disease_column ?p ?train_dir ?test_dir ?out ?out
      = Inr \<lparr>class_mapping_used = ?m,
               train_export = export_to_yolo ?df ?train_dir ?out ?m disease_column,
               val_export = export_to_yolo [?t] ?test_dir ?out ?m disease_column\<rparr>"
    by simp
  from shape have "sorted [Some ''Blight'', Some ''Rust'', Some ''Scab'']
      \<and> bij_betw (\<lambda>v. the (map_of ?m v)) {Some ''Rust'', Some ''Scab'', Some ''Blight''} {0..<3}"
    by (simp only: img card) simp
  with run report val show ?thesis by simp
qed

section \<open>Export: a class that the mapping does not hold\<close>

lemma write_rows_unknown:
  "\<exists>row \<in> set grp. map_of m (col row) = None \<Longrightarrow> fst (write_rows m col grp w) \<noteq> None"
proof (induction grp arbitrary: w)
  case Nil
  then show ?case by simp
next
  case (Cons row rows)
  show ?case
  proof (cases "map_of m (col row)")
    case None
    then show ?thesis by simp
  next
    case (Some cls_idx)
    with Cons.prems have rest: "\<exists>row \<in> set rows. map_of m (col row) = None" by auto
    show ?thesis
    proof (cases "convert_bbox_to_yolo row")
      case (Inl e)
      with Some show ?thesis by simp
    next
      case (Inr box)
      obtain x_c y_c bw bh where box: "box = (x_c, y_c, bw, bh)" by (cases box)
      from Some Inr box Cons.IH [OF rest] show ?thesis by simp
    qed
  qed
qed

lemma write_rows_key_error:
  assumes "\<exists>row \<in> set grp. map_of m (col row) = None"
    and "\<forall>row \<in> set grp. width row \<noteq> 0 \<and> height row \<noteq> 0"
  shows "fst (write_rows m col grp w) = Some KeyError"
  using assms
proof (induction grp arbitrary: w)
  case Nil
  then show ?case by simp
next
  case (Cons row rows)
  show ?case
  proof (cases "map_of m (col row)")
    case None
    then show ?thesis by simp
  next
    case (Some cls_idx)
    with Cons.prems have rest: "\<exists>row \<in> set rows. map_of m (col row) = None" by auto
    from Cons.prems have dims: "\<forall>row \<in> set rows. width row \<noteq> 0 \<and> height row \<noteq> 0"
      and here: "width row \<noteq> 0 \<and> height row \<noteq> 0" by simp_all
    from here obtain x_c y_c bw bh where "convert_bbox_to_yolo row = Inr (x_c, y_c, bw, bh)"
      by (simp add: convert_bbox_to_yolo_def)
    with Some Cons.IH [OF rest dims] show ?thesis by simp
  qed
qed

text \<open>
  Claim C7, as the code has it. The look-up \<open>class_mapping[row[class_column]]\<close> stands
  inside the \<open>try\<close> of the loop over the file names, whose \<open>except Exception\<close> counts
  the group as skipped and goes on. So a group that holds a row whose class is not a key
  of the mapping is never counted as exported: it is counted as skipped and the loop
  continues with the remaining groups. When the source image is there, image and label
  file can be written and no row of the group has a zero dimension, what the handler
  absorbs is the \<open>KeyError\<close> of that look-up.
\<close>

theorem unknown_class_is_skipped:
  assumes unknown: "\<exists>row \<in> set grp. map_of class_mapping (class_column row) = None"
  shows "\<exists>res out'.
           process_group source_images_dir class_mapping class_column fname grp out = (res, out')
         \<and> res \<noteq> Exported
         \<and> export_loop source_images_dir class_mapping class_column ((fname, grp) # groups)
               (exported, skipped, out)
             = export_loop source_images_dir class_mapping class_column groups
                 (exported, skipped + 1, out')
         \<and> (source_images_dir (source_filename fname) \<notin> {None, Some Directory}
              \<and> fname \<notin> images_blocked out \<and> label_filename fname \<notin> labels_blocked out
              \<and> (\<forall>row \<in> set grp. width row \<noteq> 0 \<and> height row \<noteq> 0)
             \<longrightarrow> res = Raised KeyError)"
proof -
  obtain res out' where
    pg: "process_group source_images_dir class_mapping class_column fname grp out = (res, out')"
    by (cases "process_group source_images_dir class_mapping class_column fname grp out")
  obtain err written where wr: "write_rows class_mapping class_column grp [] = (err, written)"
    by (cases "write_rows class_mapping class_column grp []")
  from write_rows_unknown [OF unknown, of "[]"] wr have err: "err \<noteq> None" by simp
  from pg wr err have ne: "res \<noteq> Exported"
    by (auto simp: process_group_def Let_def split: if_splits option.splits)
  from pg ne have loop:
    "export_loop source_images_dir class_mapping class_column ((fname, grp) # groups)
               (exported, skipped, out)
             = export_loop source_images_dir class_mapping class_column groups
                 (exported, skipped + 1, out')"
    by (cases res) simp_all
  have key: "res = Raised KeyError"
    if "source_images_dir (source_filename fname) \<notin> {None, Some Directory}
              \<and> fname \<notin> images_blocked out \<and> label_filename fname \<notin> labels_blocked out
              \<and> (\<forall>row \<in> set grp. width row \<noteq> 0 \<and> height row \<noteq> 0)"
  proof -
    from that have dims: "\<forall>row \<in> set grp. width row \<noteq> 0 \<and> height row \<noteq> 0" by blast
    from write_rows_key_error [OF unknown dims, of "[]"] wr have "err = Some KeyError" by simp
    with pg wr that show ?thesis
      by (auto simp: process_group_def Let_def split: if_splits)
  qed
  from pg ne loop key show ?thesis by blast
qed

text \<open>
  A test table with an apple on \<open>b.jpg\<close> and a tomato on \<open>c.jpg\<close>, exported with a
  mapping that knows tomatoes only.
\<close>

theorem unknown_class_is_skipped_witness:
  "fst (process_group (map_of [(''a.jpg'', ImageFile 100 200), (''b.jpg'', ImageFile 100 200), (''c.jpg'', ImageFile 100 200)])
          [(Some ''Tomato'', 0)] species ''b.jpg''
          [\<lparr>filename = ''b.jpg'', class_name = ''Apple Scab'', xmin = 10, xmax = 50, ymin = 20, ymax = 80,
        width = 100, height = 200, species = Some ''Apple'', disease = ''Scab'', binary_class = Some 1\<rparr>]
          \<lparr>images = map_of [], labels = map_of [], images_blocked = {}, labels_blocked = {}\<rparr>)
   = Raised KeyError
   \<and> export_loop (map_of [(''a.jpg'', ImageFile 100 200), (''b.jpg'', ImageFile 100 200), (''c.jpg'', ImageFile 100 200)])
         [(Some ''Tomato'', 0)] species
         [(''b.jpg'', [\<lparr>filename = ''b.jpg'', class_name = ''Apple Scab'', xmin = 10, xmax = 50, ymin = 20, ymax = 80,
        width = 100, height = 200, species = Some ''Apple'', disease = ''Scab'', binary_class = Some 1\<rparr>]),
          (''c.jpg'', [\<lparr>filename = ''c.jpg'', class_name = ''Tomato Blight'', xmin = 10, xmax = 50, ymin = 20, ymax = 80,
        width = 100, height = 200, species = Some ''Tomato'', disease = ''Blight'', binary_class = Some 1\<rparr>])]
         (0, 0, \<lparr>images = map_of [], labels = map_of [], images_blocked = {}, labels_blocked = {}\<rparr>)
     = export_loop (map_of [(''a.jpg'', ImageFile 100 200), (''b.jpg'', ImageFile 100 200), (''c.jpg'', ImageFile 100 200)])
         [(Some ''Tomato'', 0)] species
         [(''c.jpg'', [\<lparr>filename = ''c.jpg'', class_name = ''Tomato Blight'', xmin = 10, xmax = 50, ymin = 20, ymax = 80,
        width = 100, height = 200, species = Some ''Tomato'', disease = ''Blight'', binary_class = Some 1\<rparr>])]
         (0, 1, snd (process_group (map_of [(''a.jpg'', ImageFile 100 200), (''b.jpg'', ImageFile 100 200), (''c.jpg'', ImageFile 100 200)])
                       [(Some ''Tomato'', 0)] species ''b.jpg''
                       [\<lparr>filename = ''b.jpg'', class_name = ''Apple Scab'', xmin = 10, xmax = 50, ymin = 20, ymax = 80,
        width = 100, height = 200, species = Some ''Apple'', disease = ''Scab'', binary_class = Some 1\<rparr>]
                       \<lparr>images = map_of [], labels = map_of [], images_blocked = {}, labels_blocked = {}\<rparr>))"
proof -
  let ?src = "(map_of [(''a.jpg'', ImageFile 100 200), (''b.jpg'', ImageFile 100 200), (''c.jpg'', ImageFile 100 200)])"
  let ?out = "\<lparr>images = map_of [], labels = map_of [], images_blocked = {}, labels_blocked = {}\<rparr>"
  let ?m = "[(Some ''Tomato'', 0 :: nat)]"
  let ?b = "\<lparr>filename = ''b.jpg'', class_name = ''Apple Scab'', xmin = 10, xmax = 50, ymin = 20, ymax = 80,
        width = 100, height = 200, species = Some ''Apple'', disease = ''Scab'', binary_class = (Some 1::int option)\<rparr>"
  let ?c = "\<lparr>filename = ''c.jpg'', class_name = ''Tomato Blight'', xmin = 10, xmax = 50, ymin = 20, ymax = 80,
        width = 100, height = 200, species = Some ''Tomato'', disease = ''Blight'', binary_class = (Some 1::int option)\<rparr>"
  have unknown: "\<exists>row \<in> set [?b]. map_of ?m (species row) = None" by simp
  have fine: "?src (source_filename ''b.jpg'') \<notin> {None, Some Directory}
              \<and> ''b.jpg'' \<notin> images_blocked ?out \<and> label_filename ''b.jpg'' \<notin> labels_blocked ?out
              \<and> (\<forall>row \<in> set [?b]. width row \<noteq> 0 \<and> height row \<noteq> 0)"
    by code_simp
  from unknown_class_is_skipped [OF unknown, of ?src "''b.jpg''" ?out "[(''c.jpg'', [?c])]" 0 0] fine
  obtain res out' where
    pg: "process_group ?src ?m species ''b.jpg'' [?b] ?out = (res, out')"
    and loop: "export_loop ?src ?m species [(''b.jpg'', [?b]), (''c.jpg'', [?c])] (0, 0, ?out)
                 = export_loop ?src ?m species [(''c.jpg'', [?c])] (0, 0 + 1, out')"
    and res: "res = Raised KeyError"
    by blast
  from pg loop res show ?thesis by simp
qed

text \<open>
  The same export as a whole: it returns, with one group exported and one skipped, and
  the label file of the group that follows the unknown class is written.
\<close>

theorem unknown_class_is_skipped_counterexample:
  "create_class_mapping
     [\<lparr>filename = ''c.jpg'', class_name = ''Tomato Blight'', xmin = 10, xmax = 50, ymin = 20, ymax = 80,
        width = 100, height = 200, species = Some ''Tomato'', disease = ''Blight'', binary_class = Some 1\<rparr>] species
   = Inr [(Some ''Tomato'', 0)]
   \<and> exported_count (export_to_yolo
       [\<lparr>filename = ''b.jpg'', class_name = ''Apple Scab'', xmin = 10, xmax = 50, ymin = 20, ymax = 80,
        width = 100, height = 200, species = Some ''Apple'', disease = ''Scab'', binary_class = Some 1\<rparr>,
        \<lparr>filename = ''c.jpg'', class_name = ''Tomato Blight'', xmin = 10, xmax = 50, ymin = 20, ymax = 80,
        width = 100, height = 200, species = Some ''Tomato'', disease = ''Blight'', binary_class = Some 1\<rparr>]
       (map_of [(''a.jpg'', ImageFile 100 200), (''b.jpg'', ImageFile 100 200), (''c.jpg'', ImageFile 100 200)])
       \<lparr>images = map_of [], labels = map_of [], images_blocked = {}, labels_blocked = {}\<rparr>
       [(Some ''Tomato'', 0)] species) = 1
   \<and> skipped_count (export_to_yolo
       [\<lparr>filename = ''b.jpg'', class_name = ''Apple Scab'', xmin = 10, xmax = 50, ymin = 20, ymax = 80,
        width = 100, height = 200, species = Some ''Apple'', disease = ''Scab'', binary_class = Some 1\<rparr>,
        \<lparr>filename = ''c.jpg'', class_name = ''Tomato Blight'', xmin = 10, xmax = 50, ymin = 20, ymax = 80,
        width = 100, height = 200, species = Some ''Tomato'', disease = ''Blight'', binary_class = Some 1\<rparr>]
       (map_of [(''a.jpg'', ImageFile 100 200), (''b.jpg'', ImageFile 100 200), (''c.jpg'', ImageFile 100 200)])
       \<lparr>images = map_of [], labels = map_of [], images_blocked = {}, labels_blocked = {}\<rparr>
       [(Some ''Tomato'', 0)] species) = 1
   \<and> labels (output_dirs (export_to_yolo
       [\<lparr>filename = ''b.jpg'', class_name = ''Apple Scab'', xmin = 10, xmax = 50, ymin = 20, ymax = 80,
        width = 100, height = 200, species = Some ''Apple'', disease = ''Scab'', binary_class = Some 1\<rparr>,
        \<lparr>filename = ''c.jpg'', class_name = ''Tomato Blight'', xmin = 10, xmax = 50, ymin = 20, ymax = 80,
        width = 100, height = 200, species = Some ''Tomato'', disease = ''Blight'', binary_class = Some 1\<rparr>]
       (map_of [(''a.jpg'', ImageFile 100 200), (''b.jpg'', ImageFile 100 200), (''c.jpg'', ImageFile 100 200)])
       \<lparr>images = map_of [], labels = map_of [], images_blocked = {}, labels_blocked = {}\<rparr>
       [(Some ''Tomato'', 0)] species)) ''c.txt''
     = Some [(0, 3 / 10, 1 / 4, 2 / 5, 3 / 10)]"
  by code_simp

section \<open>Export: what a group leaves in the output directories\<close>





section \<open>End to end: the binary label of a record called healthy\<close>

text \<open>
  Claim C1. With the species list \<open>Tomato\<close>, the training record of class
  \<open>Tomato_leaf Blight\<close> gets the disease \<open>Blight\<close> and the binary class 1. The
  training record of class \<open>Tomato healthy\<close> does not get the disease \<open>healthy\<close>:
  what is left after the species is the word \<open>healthy\<close>, which \<open>title()\<close> turns into
  \<open>Healthy\<close>, and the binary label compares with the lower-case \<open>healthy\<close>, so the
  record is labelled 1, a disease. Only a class with nothing left after the species
  (here the test record \<open>Tomato leaf\<close>) gets \<open>healthy\<close> and 0.
\<close>

theorem healthy_label_counted_as_disease:
  "clean_class_name ''Tomato_leaf Blight'' = ''Tomato  Blight''
   \<and> clean_class_name ''Tomato healthy'' = ''Tomato healthy''
   \<and> extract_disease [''Tomato''] ''Tomato  Blight'' = ''Blight''
   \<and> extract_disease [''Tomato''] ''Tomato healthy'' = ''Healthy''
   \<and> map_sum id (map disease) (map_sum id df_train (map_sum id binary_filter_data
        (load_and_prepare_data [''Tomato'']
           [\<lparr>filename = ''a.jpg'', class_name = ''Tomato_leaf Blight'', xmin = 10, xmax = 50, ymin = 20, ymax = 80,
        width = 100, height = 200, species = None, disease = '''', binary_class = None\<rparr>,
            \<lparr>filename = ''b.jpg'', class_name = ''Tomato healthy'', xmin = 10, xmax = 50, ymin = 20, ymax = 80,
        width = 100, height = 200, species = None, disease = '''', binary_class = None\<rparr>]
           [\<lparr>filename = ''t.jpg'', class_name = ''Tomato leaf'', xmin = 10, xmax = 50, ymin = 20, ymax = 80,
        width = 100, height = 200, species = None, disease = '''', binary_class = None\<rparr>]
           (map_of [(''a.jpg'', ImageFile 100 200), (''b.jpg'', ImageFile 100 200)])
           (map_of [(''t.jpg'', ImageFile 100 200)]))))
     = Inr [''Blight'', ''Healthy'']
   \<and> map_sum id (map binary_class) (map_sum id df_train (map_sum id binary_filter_data
        (load_and_prepare_data [''Tomato'']
           [\<lparr>filename = ''a.jpg'', class_name = ''Tomato_leaf Blight'', xmin = 10, xmax = 50, ymin = 20, ymax = 80,
        width = 100, height = 200, species = None, disease = '''', binary_class = None\<rparr>,
            \<lparr>filename = ''b.jpg'', class_name = ''Tomato healthy'', xmin = 10, xmax = 50, ymin = 20, ymax = 80,
        width = 100, height = 200, species = None, disease = '''', binary_class = None\<rparr>]
           [\<lparr>filename = ''t.jpg'', class_name = ''Tomato leaf'', xmin = 10, xmax = 50, ymin = 20, ymax = 80,
        width = 100, height = 200, species = None, disease = '''', binary_class = None\<rparr>]
           (map_of [(''a.jpg'', ImageFile 100 200), (''b.jpg'', ImageFile 100 200)])
           (map_of [(''t.jpg'', ImageFile 100 200)]))))
     = Inr [Some 1, Some 1]
   \<and> map_sum id (map disease) (map_sum id df_test (map_sum id binary_filter_data
        (load_and_prepare_data [''Tomato'']
           [\<lparr>filename = ''a.jpg'', class_name = ''Tomato_leaf Blight'', xmin = 10, xmax = 50, ymin = 20, ymax = 80,
        width = 100, height = 200, species = None, disease = '''', binary_class = None\<rparr>,
            \<lparr>filename = ''b.jpg'', class_name = ''Tomato healthy'', xmin = 10, xmax = 50, ymin = 20, ymax = 80,
        width = 100, height = 200, species = None, disease = '''', binary_class = None\<rparr>]
           [\<lparr>filename = ''t.jpg'', class_name = ''Tomato leaf'', xmin = 10, xmax = 50, ymin = 20, ymax = 80,
        width = 100, height = 200, species = None, disease = '''', binary_class = None\<rparr>]
           (map_of [(''a.jpg'', ImageFile 100 200), (''b.jpg'', ImageFile 100 200)])
           (map_of [(''t.jpg'', ImageFile 100 200)]))))
     = Inr [''healthy'']
   \<and> map_sum id (map binary_class) (map_sum id df_test (map_sum id binary_filter_data
        (load_and_prepare_data [''Tomato'']
           [\<lparr>filename = ''a.jpg'', class_name = ''Tomato_leaf Blight'', xmin = 10, xmax = 50, ymin = 20, ymax = 80,
        width = 100, height = 200, species = None, disease = '''', binary_class = None\<rparr>,
            \<lparr>filename = ''b.jpg'', class_name = ''Tomato healthy'', xmin = 10, xmax = 50, ymin = 20, ymax = 80,
        width = 100, height = 200, species = None, disease = '''', binary_class = None\<rparr>]
           [\<lparr>filename = ''t.jpg'', class_name = ''Tomato leaf'', xmin = 10, xmax = 50, ymin = 20, ymax = 80,
        width = 100, height = 200, species = None, disease = '''', binary_class = None\<rparr>]
           (map_of [(''a.jpg'', ImageFile 100 200), (''b.jpg'', ImageFile 100 200)])
           (map_of [(''t.jpg'', ImageFile 100 200)]))))
     = Inr [Some 0]"
  by code_simp

end
